theory Spec2Isabelle
  imports Complex_Main "HOL-Library.Multiset"
begin

section \<open>JavaScript values used by the consumer engine\<close>

text \<open>
  The TypeScript type \<open>number\<close> is modelled by the integers together with \<open>NaN\<close>: the log
  carries deltas as decimal strings and the engine only ever adds them. Addition is exact
  on integers and \<open>NaN\<close> absorbs, as in JavaScript. Fractions, infinities and the rounding
  of doubles beyond \<open>2^53\<close> are outside the model.
\<close>

datatype jsnum = Num (the_int: int) | NaN

instantiation jsnum :: comm_monoid_add
begin

definition zero_jsnum :: jsnum where
  "zero_jsnum = Num 0"

fun plus_jsnum :: "jsnum \<Rightarrow> jsnum \<Rightarrow> jsnum" where
  "plus_jsnum (Num a) (Num b) = Num (a + b)"
| "plus_jsnum NaN _ = NaN"
| "plus_jsnum (Num a) NaN = NaN"

instance
proof
  fix x y z :: jsnum
  show "0 + x = x"
    by (cases x) (simp_all add: zero_jsnum_def)
  show "x + y = y + x"
    by (cases x; cases y) simp_all
  show "x + y + z = x + (y + z)"
    by (cases x; cases y; cases z) simp_all
qed

end

text \<open>
  A JavaScript \<open>Map\<close> keeps its entries in insertion order and holds each key once: it
  is an association list, \<open>Map_set\<close> overwrites in place or appends at the end, and
  \<open>Map_get\<close> is \<open>undefined\<close> (\<open>None\<close>) on a missing key.
\<close>

type_synonym ('k, 'v) jsmap = "('k \<times> 'v) list"

fun Map_set :: "'k \<Rightarrow> 'v \<Rightarrow> ('k, 'v) jsmap \<Rightarrow> ('k, 'v) jsmap" where
  "Map_set k v [] = [(k, v)]"
| "Map_set k v ((k', v') # m) = (if k' = k then (k, v) # m else (k', v') # Map_set k v m)"

definition Map_get :: "('k, 'v) jsmap \<Rightarrow> 'k \<Rightarrow> 'v option" where
  "Map_get m k = map_of m k"

definition Map_size :: "('k, 'v) jsmap \<Rightarrow> nat" where
  "Map_size m = length m"



text \<open>\<open>Math.round\<close> rounds to the nearest integer, a half going up.\<close>

definition Math_round :: "real \<Rightarrow> int" where
  "Math_round x = \<lfloor>x + 1 / 2\<rfloor>"

text \<open>
  \<open>Number(s)\<close> is a builtin of the language, not code of the repository: the engine takes
  it from its environment (\<open>Number\<close> below). \<open>Number_decimal\<close> is the builtin's reading of
  the wire format of the log, a signed run of decimal digits with white space around it: the
  empty string reads as \<open>0\<close>, and a string with a character that no numeric literal
  contains reads as \<open>NaN\<close>. Literals with a fraction, an exponent, a radix prefix or
  \<open>Infinity\<close> are numbers in JavaScript too; they are outside this reading and no statement
  below evaluates it on them.
\<close>

definition digit_value :: "char \<Rightarrow> int option" where
  "digit_value c = map_of
     [(CHR ''0'', 0), (CHR ''1'', 1), (CHR ''2'', 2), (CHR ''3'', 3), (CHR ''4'', 4),
      (CHR ''5'', 5), (CHR ''6'', 6), (CHR ''7'', 7), (CHR ''8'', 8), (CHR ''9'', 9)] c"

fun digits_value :: "int \<Rightarrow> string \<Rightarrow> int option" where
  "digits_value acc [] = Some acc"
| "digits_value acc (c # cs) =
     (case digit_value c of None \<Rightarrow> None | Some d \<Rightarrow> digits_value (10 * acc + d) cs)"

definition unsigned_decimal :: "string \<Rightarrow> int option" where
  "unsigned_decimal s = (if s = [] then None else digits_value 0 s)"

definition is_blank :: "char \<Rightarrow> bool" where
  "is_blank c = (c \<in> set [CHR '' '', CHR 0x09, CHR 0x0A, CHR 0x0B, CHR 0x0C, CHR 0x0D])"

definition trim_blanks :: "string \<Rightarrow> string" where
  "trim_blanks s = rev (dropWhile is_blank (rev (dropWhile is_blank s)))"

definition Number_decimal :: "string \<Rightarrow> jsnum" where
  "Number_decimal s =
     (let t = trim_blanks s in
      if t = [] then Num 0
      else case (case t of
                   c # r \<Rightarrow> if c = CHR ''-'' then map_option uminus (unsigned_decimal r)
                            else if c = CHR ''+'' then unsigned_decimal r
                            else unsigned_decimal t
                 | [] \<Rightarrow> None) of
             None \<Rightarrow> NaN
           | Some i \<Rightarrow> Num i)"

section \<open>Events and statistics (packages/types/src/core.ts)\<close>

typedecl ScopeMetadata

record CounterEvent =
  scope :: string
  delta :: jsnum
  metadata :: "ScopeMetadata option"
  timestamp :: "jsnum option"

record SyncStats =
  eventsProcessed :: nat
  flushCount :: nat
  lastFlushAt :: "int option"
  pendingMessages :: nat
  avgBatchSize :: int
  errorCount :: nat

section \<open>The Aggregator (packages/core/src/aggregator.ts)\<close>

record Aggregator =
  deltas :: "(string, jsnum) jsmap"
  count :: nat

definition Aggregator_new :: Aggregator where
  "Aggregator_new = \<lparr>deltas = [], count = 0\<rparr>"

text \<open>\<open>add\<close>: \<open>current = deltas.get(scope) ?? 0; deltas.set(scope, current + delta); count++\<close>.\<close>

definition Aggregator_add :: "CounterEvent \<Rightarrow> Aggregator \<Rightarrow> Aggregator" where
  "Aggregator_add event a =
     (let current = (case Map_get (deltas a) (scope event) of None \<Rightarrow> 0 | Some v \<Rightarrow> v)
      in a\<lparr>deltas := Map_set (scope event) (current + delta event) (deltas a),
           count := count a + 1\<rparr>)"

definition Aggregator_size :: "Aggregator \<Rightarrow> nat" where
  "Aggregator_size a = count a"

definition Aggregator_scopeCount :: "Aggregator \<Rightarrow> nat" where
  "Aggregator_scopeCount a = Map_size (deltas a)"

text \<open>\<open>drain\<close> hands the current map out and installs a fresh one; the pair is
  (returned batch, aggregator afterwards).\<close>

definition Aggregator_drain :: "Aggregator \<Rightarrow> (string, jsnum) jsmap \<times> Aggregator" where
  "Aggregator_drain a = (deltas a, a\<lparr>deltas := [], count := 0\<rparr>)"

text \<open>Adding a sequence of events, first to last.\<close>

definition add_all :: "CounterEvent list \<Rightarrow> Aggregator \<Rightarrow> Aggregator" where
  "add_all evs a = fold Aggregator_add evs a"

text \<open>The deltas of the events of one scope, in the order they were added.\<close>

definition deltas_of :: "string \<Rightarrow> CounterEvent list \<Rightarrow> jsnum list" where
  "deltas_of s evs = map delta (filter (\<lambda>e. scope e = s) evs)"

section \<open>The outside world of the consumer\<close>

text \<open>A thrown value; \<open>message\<close> is its \<open>message\<close> property, when it has one.\<close>

datatype js_error = Thrown (message: "string option")

text \<open>The payloads of the \<open>warn\<close> event and the events the bridge emits.\<close>

datatype warn_detail =
    Fields "string list"
  | Scope string
  | Failed_of nat nat

datatype emitted =
    Started
  | Stopped
  | Flush_event nat nat
  | Recovery nat
  | Warn string warn_detail
  | Error js_error

text \<open>
  What the bridge does to the outside, in the order it does it: the events it emits, the
  calls to the provider and to Redis (with the stream cursor for a read), the back-off
  sleep, the spawning of the read loop and the arming of the flush timer.
\<close>

datatype effect =
    Emit emitted
  | Provider_initialize
  | Xgroup_create string string
  | Xreadgroup string
  | Provider_flush "(string, jsnum) jsmap"
  | Xack "string list"
  | Sleep nat
  | Spawn_readLoop
  | Arm_flushTimer nat

text \<open>\<open>provider.flush\<close> resolves, with the \<open>failed\<close> map of its FlushResult when there is
  one (\<open>None\<close> for \<open>void\<close> and for a result without \<open>failed\<close>), or rejects.\<close>

datatype flush_outcome =
    Resolved "(string, jsnum) jsmap option"
  | Rejected js_error

text \<open>\<open>redis.xreadgroup\<close> resolves to \<open>null\<close> or to a list of streams, each with its
  messages (id, flat field list), or rejects.\<close>

datatype read_outcome =
    Read_null
  | Read_results "(string \<times> (string \<times> string list) list) list"
  | Read_rejected js_error

text \<open>
  The answers of the outside world during one call of the bridge. Each function below
  makes at most one call of each kind. \<open>during_flush\<close> and \<open>during_xack\<close> are the log
  entries (id, parsed event) that the read loop folds in while \<open>doFlush\<close> is suspended on
  \<open>provider.flush\<close> and on \<open>xack\<close>; both are empty when nothing else runs.
\<close>

record env =
  Number :: "string \<Rightarrow> jsnum"
  JSON_parse :: "string \<Rightarrow> ScopeMetadata option"
  Date_now :: int
  initialize_outcome :: "js_error option option"
  xgroup_outcome :: "js_error option"
  xreadgroup_outcome :: read_outcome
  provider_flush_outcome :: flush_outcome
  during_flush :: "(string \<times> CounterEvent) list"
  xack_outcome :: "js_error option"
  during_xack :: "(string \<times> CounterEvent) list"

section \<open>The CounterBridge engine (packages/core/src/consumer.ts)\<close>

record CounterBridge =
  aggregator :: Aggregator
  running :: bool
  flushing :: bool
  pendingIds :: "string list"
  stats :: SyncStats
  trace :: "effect list"
  streamKey :: string
  groupName :: string
  windowMs :: nat
  maxBatchSize :: nat

definition CounterBridge_new :: "string \<Rightarrow> string \<Rightarrow> nat \<Rightarrow> nat \<Rightarrow> CounterBridge" where
  "CounterBridge_new key grp window maxMessages =
     \<lparr>aggregator = Aggregator_new, running = False, flushing = False, pendingIds = [],
      stats = \<lparr>eventsProcessed = 0, flushCount = 0, lastFlushAt = None, pendingMessages = 0,
               avgBatchSize = 0, errorCount = 0\<rparr>,
      trace = [], streamKey = key, groupName = grp, windowMs = window,
      maxBatchSize = maxMessages\<rparr>"

text \<open>
  The bridge is an EventEmitter; \<open>emit\<close> is recorded in the trace and hands control to no
  listener (the consumer service registers a listener for every kind of event, \<open>error\<close>
  included). \<open>stop\<close> and the body of the flush timer are not part of this development.
\<close>

definition perform :: "effect \<Rightarrow> CounterBridge \<Rightarrow> CounterBridge" where
  "perform x st = st\<lparr>trace := trace st @ [x]\<rparr>"

definition emit :: "emitted \<Rightarrow> CounterBridge \<Rightarrow> CounterBridge" where
  "emit e st = perform (Emit e) st"

subsection \<open>parseEvent\<close>

text \<open>The four locals of \<open>parseEvent\<close>, each \<open>undefined\<close> until a field assigns it.\<close>

record slots =
  scope_slot :: "string option"
  delta_slot :: "string option"
  timestamp_slot :: "string option"
  metadata_slot :: "string option"

definition no_slots :: slots where
  "no_slots = \<lparr>scope_slot = None, delta_slot = None, timestamp_slot = None, metadata_slot = None\<rparr>"

text \<open>The \<open>switch\<close> on \<open>fields[i]\<close>; the value is \<open>fields[i + 1]\<close>, \<open>undefined\<close> past the end.\<close>

definition assign_slot :: "string \<Rightarrow> string option \<Rightarrow> slots \<Rightarrow> slots" where
  "assign_slot k v r =
     (if k = ''scope'' then r\<lparr>scope_slot := v\<rparr>
      else if k = ''delta'' then r\<lparr>delta_slot := v\<rparr>
      else if k = ''timestamp'' then r\<lparr>timestamp_slot := v\<rparr>
      else if k = ''metadata'' then r\<lparr>metadata_slot := v\<rparr>
      else r)"

text \<open>The loop \<open>for (i = 0; i < fields.length; i += 2)\<close>.\<close>

fun scan_fields :: "string list \<Rightarrow> slots \<Rightarrow> slots" where
  "scan_fields [] r = r"
| "scan_fields [k] r = assign_slot k None r"
| "scan_fields (k # v # rest) r = scan_fields rest (assign_slot k (Some v) r)"

text \<open>The keys of a flat field list: the entries at the even positions.\<close>

fun field_keys :: "string list \<Rightarrow> string list" where
  "field_keys [] = []"
| "field_keys [k] = [k]"
| "field_keys (k # v # rest) = k # field_keys rest"

text \<open>The result is the event or \<open>null\<close>, with the warnings emitted on the way.\<close>

definition parseEvent :: "env \<Rightarrow> string list \<Rightarrow> CounterEvent option \<times> emitted list" where
  "parseEvent env fs =
     (let r = scan_fields fs no_slots in
      case scope_slot r of
        None \<Rightarrow> (None, [Warn ''Dropped malformed event'' (Fields fs)])
      | Some s \<Rightarrow>
          (case delta_slot r of
             None \<Rightarrow> (None, [Warn ''Dropped malformed event'' (Fields fs)])
           | Some d \<Rightarrow>
               if s = [] then (None, [Warn ''Dropped malformed event'' (Fields fs)])
               else
                 let (parsedMetadata, warns) =
                       (case metadata_slot r of
                          None \<Rightarrow> (None, [])
                        | Some m \<Rightarrow>
                            if m = [] then (None, [])
                            else (case JSON_parse env m of
                                    Some j \<Rightarrow> (Some j, [])
                                  | None \<Rightarrow>
                                      (None, [Warn ''Failed to parse event metadata'' (Scope s)])))
                 in (Some \<lparr>scope = s,
                           delta = Number env d,
                           metadata = parsedMetadata,
                           timestamp = Some (case timestamp_slot r of
                                               None \<Rightarrow> Num (Date_now env)
                                             | Some t \<Rightarrow> Number env t)\<rparr>,
                     warns)))"

subsection \<open>Folding a log entry\<close>

text \<open>The body of the message loops of \<open>recoverPending\<close> and \<open>readLoop\<close> for a parsed
  event: \<open>aggregator.add(event); pendingIds.push(id); stats.eventsProcessed++\<close>.\<close>

definition ingest :: "string \<times> CounterEvent \<Rightarrow> CounterBridge \<Rightarrow> CounterBridge" where
  "ingest m st =
     st\<lparr>aggregator := Aggregator_add (snd m) (aggregator st),
        pendingIds := pendingIds st @ [fst m],
        stats := (stats st)\<lparr>eventsProcessed := eventsProcessed (stats st) + 1\<rparr>\<rparr>"

definition meanwhile :: "(string \<times> CounterEvent) list \<Rightarrow> CounterBridge \<Rightarrow> CounterBridge" where
  "meanwhile ms st = fold ingest ms st"



subsection \<open>doFlush and flush\<close>

text \<open>A failed or whole batch goes back as synthetic events stamped \<open>Date.now()\<close>.\<close>

definition synthetic :: "int \<Rightarrow> string \<times> jsnum \<Rightarrow> CounterEvent" where
  "synthetic now p = \<lparr>scope = fst p, delta = snd p, metadata = None, timestamp = Some (Num now)\<rparr>"

definition readd :: "int \<Rightarrow> (string, jsnum) jsmap \<Rightarrow> CounterBridge \<Rightarrow> CounterBridge" where
  "readd now m st = st\<lparr>aggregator := add_all (map (synthetic now) m) (aggregator st)\<rparr>"

text \<open>The \<open>catch\<close> block of \<open>doFlush\<close>.\<close>

definition doFlush_catch ::
  "env \<Rightarrow> js_error \<Rightarrow> (string, jsnum) jsmap \<Rightarrow> string list \<Rightarrow> CounterBridge \<Rightarrow> CounterBridge" where
  "doFlush_catch env err batch idsToAck st =
     (let st1 = st\<lparr>stats := (stats st)\<lparr>errorCount := errorCount (stats st) + 1\<rparr>\<rparr>;
          st2 = emit (Error err) st1;
          st3 = readd (Date_now env) batch st2
      in st3\<lparr>pendingIds := idsToAck @ pendingIds st3\<rparr>)"

text \<open>The statistics and the \<open>flush\<close> event after the acknowledgement.\<close>

definition doFlush_stats :: "env \<Rightarrow> (string, jsnum) jsmap \<Rightarrow> CounterBridge \<Rightarrow> CounterBridge" where
  "doFlush_stats env batch st =
     (let n = flushCount (stats st) + 1;
          avg = Math_round ((of_int (avgBatchSize (stats st)) * of_nat (n - 1)
                              + of_nat (Map_size batch)) / of_nat n)
      in emit (Flush_event (Map_size batch) n)
           (st\<lparr>stats := (stats st)\<lparr>flushCount := n, lastFlushAt := Some (Date_now env),
                                     avgBatchSize := avg\<rparr>\<rparr>))"

definition doFlush :: "env \<Rightarrow> CounterBridge \<Rightarrow> CounterBridge" where
  "doFlush env st =
     (let (batch, drained) = Aggregator_drain (aggregator st);
          idsToAck = pendingIds st;
          st1 = perform (Provider_flush batch) (st\<lparr>aggregator := drained, pendingIds := []\<rparr>);
          st2 = meanwhile (during_flush env) st1
      in case provider_flush_outcome env of
           Rejected err \<Rightarrow> doFlush_catch env err batch idsToAck st2
         | Resolved failed \<Rightarrow>
             let st3 = (case failed of
                          None \<Rightarrow> st2
                        | Some f \<Rightarrow>
                            if Map_size f > 0
                            then emit (Warn ''Partial flush failure''
                                         (Failed_of (Map_size f) (Map_size batch)))
                                   (readd (Date_now env) f st2)
                            else st2)
             in if idsToAck \<noteq> []
                then (let st4 = meanwhile (during_xack env) (perform (Xack idsToAck) st3)
                      in case xack_outcome env of
                           Some err \<Rightarrow> doFlush_catch env err batch idsToAck st4
                         | None \<Rightarrow> doFlush_stats env batch st4)
                else doFlush_stats env batch st3)"

text \<open>\<open>flush\<close>: wait out a flush in flight, skip an empty aggregator, else \<open>doFlush\<close> under
  the \<open>flushing\<close> mutex.\<close>

definition flush :: "env \<Rightarrow> CounterBridge \<Rightarrow> CounterBridge" where
  "flush env st =
     (if flushing st then st
      else if Aggregator_size (aggregator st) = 0 then st
      else (doFlush env (st\<lparr>flushing := True\<rparr>))\<lparr>flushing := False\<rparr>)"

text \<open>The ids that a run has acknowledged: those of its \<open>xack\<close> calls, in order.\<close>

fun acked :: "effect list \<Rightarrow> string list" where
  "acked [] = []"
| "acked (Xack ids # xs) = ids @ acked xs"
| "acked (x # xs) = acked xs"

text \<open>The entries folded in while \<open>doFlush\<close> waits for \<open>xack\<close>, which it calls only
  with ids to acknowledge.\<close>

definition arrived_during_xack :: "env \<Rightarrow> CounterBridge \<Rightarrow> (string \<times> CounterEvent) list" where
  "arrived_during_xack env st = (if pendingIds st = [] then [] else during_xack env)"

subsection \<open>recoverPending, readLoop, scheduleFlush, start\<close>








section \<open>The MongoDB provider (packages/provider-mongo/src/provider.ts)\<close>

text \<open>
  The value \<open>bulkWrite\<close> rejects with: its \<open>name\<close>, its \<open>result\<close> when truthy, given by the
  indexes that \<open>result.getWriteErrors()\<close> returns (\<open>None\<close> when the method is missing or
  returns nothing), and the indexes of its \<open>writeErrors\<close> property when it has one.
\<close>

record mongo_error =
  err_name :: string
  err_result :: "nat list option option"
  err_writeErrors :: "nat list option"

datatype bulkWrite_outcome =
    BulkWrite_ok
  | BulkWrite_rejected mongo_error

text \<open>The one database call of \<open>flush\<close>: \<open>bulkWrite(ops, {ordered: false})\<close>, each op an
  upsert of a scope with \<open>$inc\<close> of its delta.\<close>

datatype mongo_call = BulkWrite "(string \<times> jsnum) list"

text \<open>What \<open>flush\<close> resolves to: \<open>void\<close>, or a FlushResult with its \<open>failed\<close> map. An index
  past the end reads \<open>scopes[idx]\<close> as \<open>undefined\<close>, and so does \<open>batch.get\<close> of it.\<close>

datatype mongo_resolved =
    Void
  | FlushResult "(string option, jsnum option) jsmap"

definition nth_opt :: "'a list \<Rightarrow> nat \<Rightarrow> 'a option" where
  "nth_opt xs i = (if i < length xs then Some (xs ! i) else None)"

text \<open>\<open>new Set(indexes)\<close>: each index once, in the order of first occurrence.\<close>

definition Set_of :: "nat list \<Rightarrow> nat list" where
  "Set_of xs = rev (remdups (rev xs))"

definition failed_entry ::
  "(string, jsnum) jsmap \<Rightarrow> nat \<Rightarrow> (string option, jsnum option) jsmap
     \<Rightarrow> (string option, jsnum option) jsmap" where
  "failed_entry batch idx failed =
     (let key = nth_opt (map fst batch) idx
      in Map_set key (case key of None \<Rightarrow> None | Some s \<Rightarrow> Map_get batch s) failed)"

definition MongoProvider_flush ::
  "bulkWrite_outcome \<Rightarrow> (string, jsnum) jsmap \<Rightarrow> (mongo_error + mongo_resolved) \<times> mongo_call list" where
  "MongoProvider_flush bulkWrite batch =
     (if Map_size batch = 0 then (Inr Void, [])
      else
        let ops = batch in
        case bulkWrite of
          BulkWrite_ok \<Rightarrow> (Inr Void, [BulkWrite ops])
        | BulkWrite_rejected err \<Rightarrow>
            (case (if err_name err = ''MongoBulkWriteError'' then err_result err else None) of
               None \<Rightarrow> (Inl err, [BulkWrite ops])
             | Some got \<Rightarrow>
                 let writeErrors =
                       (case got of
                          Some ws \<Rightarrow> ws
                        | None \<Rightarrow> (case err_writeErrors err of Some ws \<Rightarrow> ws | None \<Rightarrow> []))
                 in if length writeErrors > 0 \<and> length writeErrors < length ops
                    then (Inr (FlushResult (fold (failed_entry batch) (Set_of writeErrors) [])),
                          [BulkWrite ops])
                    else (Inl err, [BulkWrite ops])))"

section \<open>Vocabulary of the lifecycle statements\<close>



section \<open>Concrete runs\<close>

text \<open>An event as the Aggregator's tests build it, and a world in which every call
  succeeds and nothing is pending.\<close>

definition ev :: "string \<Rightarrow> int \<Rightarrow> CounterEvent" where
  "ev s d = \<lparr>scope = s, delta = Num d, metadata = None, timestamp = None\<rparr>"

definition calm :: env where
  "calm = \<lparr>Number = Number_decimal, JSON_parse = (\<lambda>_. None), Date_now = 1000,
           initialize_outcome = Some None, xgroup_outcome = None,
           xreadgroup_outcome = Read_null, provider_flush_outcome = Resolved None,
           during_flush = [], xack_outcome = None, during_xack = []\<rparr>"

definition bridge0 :: CounterBridge where
  "bridge0 = CounterBridge_new ''test:stream'' ''test-group'' 500 1000"

text \<open>The provider is down while the entry \<open>3-0\<close> (\<open>y\<close>, \<open>+1\<close>) is flushed, and the entry
  \<open>4-0\<close> (\<open>z\<close>, \<open>+5\<close>) arrives during the attempt.\<close>

definition db_down :: env where
  "db_down = calm\<lparr>provider_flush_outcome := Rejected (Thrown (Some ''DB down'')),
                   during_flush := [(''4-0'', ev ''z'' 5)]\<rparr>"


text \<open>The bridge holds the entries \<open>4-0\<close> (\<open>a\<close>, \<open>+1\<close>) and \<open>5-0\<close> (\<open>b\<close>, \<open>+2\<close>); the provider
  reports \<open>b\<close> as failed, or both scopes as failed, in its FlushResult.\<close>

definition holding_ab :: CounterBridge where
  "holding_ab = meanwhile [(''4-0'', ev ''a'' 1), (''5-0'', ev ''b'' 2)] bridge0"


definition all_failed :: env where
  "all_failed = calm\<lparr>provider_flush_outcome := Resolved (Some [(''a'', Num 1), (''b'', Num 2)])\<rparr>"

text \<open>A bridge that has completed one flush, of one scope, and holds two scopes.\<close>

definition flushed_once :: CounterBridge where
  "flushed_once = holding_ab\<lparr>stats := (stats holding_ab)\<lparr>flushCount := 1, avgBatchSize := 1\<rparr>\<rparr>"







section \<open>Facts about maps and the Aggregator\<close>

lemma Map_get_set: "Map_get (Map_set k v m) k' = (if k' = k then Some v else Map_get m k')"
  by (induction m) (auto simp: Map_get_def)

lemma Map_set_keys:
  "map fst (Map_set k v m) = (if k \<in> set (map fst m) then map fst m else map fst m @ [k])"
  by (induction m) force+

lemma Map_set_distinct: "distinct (map fst m) \<Longrightarrow> distinct (map fst (Map_set k v m))"
  by (simp add: Map_set_keys)

lemma add_all_Nil: "add_all [] a = a"
  by (simp add: add_all_def)

lemma add_all_Cons: "add_all (e # evs) a = add_all evs (Aggregator_add e a)"
  by (simp add: add_all_def)

lemma add_all_append: "add_all (xs @ ys) a = add_all ys (add_all xs a)"
  by (simp add: add_all_def)

lemma get_add:
  "Map_get (deltas (Aggregator_add e a)) s =
     (if s = scope e
      then Some ((case Map_get (deltas a) s of None \<Rightarrow> 0 | Some v \<Rightarrow> v) + delta e)
      else Map_get (deltas a) s)"
  by (simp add: Aggregator_add_def Let_def Map_get_set)

lemma deltas_of_absent: "s \<notin> scope ` set evs \<Longrightarrow> deltas_of s evs = []"
  by (induction evs) (auto simp: deltas_of_def)

lemma deltas_of_Cons:
  "deltas_of s (e # evs) = (if scope e = s then delta e # deltas_of s evs else deltas_of s evs)"
  by (simp add: deltas_of_def)

lemma deltas_of_append: "deltas_of s (xs @ ys) = deltas_of s xs @ deltas_of s ys"
  by (simp add: deltas_of_def)

lemma get_add_all:
  "Map_get (deltas (add_all evs a)) s =
     (if s \<in> scope ` set evs
      then Some ((case Map_get (deltas a) s of None \<Rightarrow> 0 | Some v \<Rightarrow> v)
                 + sum_list (deltas_of s evs))
      else Map_get (deltas a) s)"
proof (induction evs arbitrary: a)
  case Nil
  show ?case by (simp add: add_all_Nil)
next
  case (Cons e evs)
  have "Map_get (deltas (add_all (e # evs) a)) s =
        Map_get (deltas (add_all evs (Aggregator_add e a))) s"
    by (simp add: add_all_Cons)
  also have "\<dots> = (if s \<in> scope ` set evs
      then Some ((case Map_get (deltas (Aggregator_add e a)) s of None \<Rightarrow> 0 | Some v \<Rightarrow> v)
                 + sum_list (deltas_of s evs))
      else Map_get (deltas (Aggregator_add e a)) s)"
    by (rule Cons.IH)
  also have "\<dots> = (if s \<in> scope ` set (e # evs)
      then Some ((case Map_get (deltas a) s of None \<Rightarrow> 0 | Some v \<Rightarrow> v)
                 + sum_list (deltas_of s (e # evs)))
      else Map_get (deltas a) s)"
    by (simp add: get_add deltas_of_absent deltas_of_Cons add.assoc split: option.split)
  finally show ?case .
qed

lemma get_new: "Map_get (deltas Aggregator_new) s = None"
  by (simp add: Aggregator_new_def Map_get_def)

lemma get_add_all_new:
  "Map_get (deltas (add_all evs Aggregator_new)) s =
     (if s \<in> scope ` set evs then Some (sum_list (deltas_of s evs)) else None)"
  by (simp add: get_add_all get_new)

lemma count_add_all: "count (add_all evs a) = count a + length evs"
  by (induction evs arbitrary: a) (simp_all add: add_all_Nil add_all_Cons Aggregator_add_def Let_def)

lemma distinct_add:
  "distinct (map fst (deltas a)) \<Longrightarrow> distinct (map fst (deltas (Aggregator_add e a)))"
  by (simp add: Aggregator_add_def Let_def Map_set_distinct)

lemma distinct_add_all:
  "distinct (map fst (deltas a)) \<Longrightarrow> distinct (map fst (deltas (add_all evs a)))"
  by (induction evs arbitrary: a) (simp_all add: add_all_Nil add_all_Cons distinct_add)




lemma synthetic_simps:
  "scope (synthetic now p) = fst p"
  "delta (synthetic now p) = snd p"
  by (simp_all add: synthetic_def)

lemma deltas_of_synthetic_absent:
  "s \<notin> fst ` set m \<Longrightarrow> deltas_of s (map (synthetic now) m) = []"
  by (rule deltas_of_absent) (force simp: synthetic_simps)

lemma deltas_of_synthetic:
  "distinct (map fst m) \<Longrightarrow> (s, d) \<in> set m \<Longrightarrow> deltas_of s (map (synthetic now) m) = [d]"
proof (induction m)
  case Nil
  then show ?case by simp
next
  case (Cons p m)
  show ?case
  proof (cases "p = (s, d)")
    case True
    with Cons.prems have "s \<notin> fst ` set m" by auto
    then have "deltas_of s (map (synthetic now) m) = []"
      by (rule deltas_of_synthetic_absent)
    with True show ?thesis by (simp add: deltas_of_Cons synthetic_simps)
  next
    case False
    with Cons.prems have in_m: "(s, d) \<in> set m" and "distinct (map fst m)" by auto
    then have ih: "deltas_of s (map (synthetic now) m) = [d]" by (rule Cons.IH [rotated])
    from in_m have "s \<in> fst ` set m" by force
    with Cons.prems have "fst p \<noteq> s" by auto
    with ih show ?thesis by (simp add: deltas_of_Cons synthetic_simps)
  qed
qed

lemma Math_round_eq_round: "Math_round x = round x"
  by (simp add: Math_round_def round_def)

lemma Math_round_ratio:
  "Math_round (of_int n / of_nat d) = (2 * n + int d) div (2 * int d)"
proof (cases "d = 0")
  case True
  then show ?thesis by (simp add: Math_round_def)
next
  case False
  then have "(of_int n / of_nat d + 1 / 2 :: real) = of_int (2 * n + int d) / of_int (2 * int d)"
    by (simp add: field_simps)
  then show ?thesis
    by (simp only: Math_round_def floor_divide_of_int_eq)
qed

section \<open>Facts about the pieces of the engine\<close>

lemma perform_simps:
  "aggregator (perform x st) = aggregator st"
  "pendingIds (perform x st) = pendingIds st"
  "stats (perform x st) = stats st"
  "running (perform x st) = running st"
  "flushing (perform x st) = flushing st"
  "trace (perform x st) = trace st @ [x]"
  "streamKey (perform x st) = streamKey st"
  "groupName (perform x st) = groupName st"
  "windowMs (perform x st) = windowMs st"
  "maxBatchSize (perform x st) = maxBatchSize st"
  by (simp_all add: perform_def)

lemma emit_simps:
  "aggregator (emit e st) = aggregator st"
  "pendingIds (emit e st) = pendingIds st"
  "stats (emit e st) = stats st"
  "running (emit e st) = running st"
  "flushing (emit e st) = flushing st"
  "trace (emit e st) = trace st @ [Emit e]"
  "streamKey (emit e st) = streamKey st"
  "groupName (emit e st) = groupName st"
  "windowMs (emit e st) = windowMs st"
  "maxBatchSize (emit e st) = maxBatchSize st"
  by (simp_all add: emit_def perform_simps)

lemma meanwhile_Nil: "meanwhile [] st = st"
  by (simp add: meanwhile_def)

lemma meanwhile_Cons: "meanwhile (m # ms) st = meanwhile ms (ingest m st)"
  by (simp add: meanwhile_def)

lemma meanwhile_aggregator:
  "aggregator (meanwhile ms st) = add_all (map snd ms) (aggregator st)"
  by (induction ms arbitrary: st)
     (simp_all add: meanwhile_Nil meanwhile_Cons add_all_Nil add_all_Cons ingest_def)

lemma meanwhile_pendingIds: "pendingIds (meanwhile ms st) = pendingIds st @ map fst ms"
  by (induction ms arbitrary: st) (simp_all add: meanwhile_Nil meanwhile_Cons ingest_def)

lemma meanwhile_unchanged:
  "trace (meanwhile ms st) = trace st"
  "running (meanwhile ms st) = running st"
  "flushing (meanwhile ms st) = flushing st"
  "errorCount (stats (meanwhile ms st)) = errorCount (stats st)"
  "flushCount (stats (meanwhile ms st)) = flushCount (stats st)"
  "avgBatchSize (stats (meanwhile ms st)) = avgBatchSize (stats st)"
  "lastFlushAt (stats (meanwhile ms st)) = lastFlushAt (stats st)"
  by (induction ms arbitrary: st) (simp_all add: meanwhile_Nil meanwhile_Cons ingest_def)

lemma readd_simps:
  "aggregator (readd now m st) = add_all (map (synthetic now) m) (aggregator st)"
  "pendingIds (readd now m st) = pendingIds st"
  "stats (readd now m st) = stats st"
  "running (readd now m st) = running st"
  "flushing (readd now m st) = flushing st"
  "trace (readd now m st) = trace st"
  by (simp_all add: readd_def)

lemma doFlush_catch_simps:
  "aggregator (doFlush_catch env err batch ids st) =
     add_all (map (synthetic (Date_now env)) batch) (aggregator st)"
  "pendingIds (doFlush_catch env err batch ids st) = ids @ pendingIds st"
  "trace (doFlush_catch env err batch ids st) = trace st @ [Emit (Error err)]"
  "running (doFlush_catch env err batch ids st) = running st"
  "flushing (doFlush_catch env err batch ids st) = flushing st"
  "errorCount (stats (doFlush_catch env err batch ids st)) = errorCount (stats st) + 1"
  "flushCount (stats (doFlush_catch env err batch ids st)) = flushCount (stats st)"
  "avgBatchSize (stats (doFlush_catch env err batch ids st)) = avgBatchSize (stats st)"
  "lastFlushAt (stats (doFlush_catch env err batch ids st)) = lastFlushAt (stats st)"
  by (simp_all add: doFlush_catch_def Let_def readd_simps emit_simps)

lemma doFlush_stats_simps:
  "aggregator (doFlush_stats env batch st) = aggregator st"
  "pendingIds (doFlush_stats env batch st) = pendingIds st"
  "trace (doFlush_stats env batch st) =
     trace st @ [Emit (Flush_event (Map_size batch) (flushCount (stats st) + 1))]"
  "running (doFlush_stats env batch st) = running st"
  "flushing (doFlush_stats env batch st) = flushing st"
  "errorCount (stats (doFlush_stats env batch st)) = errorCount (stats st)"
  "flushCount (stats (doFlush_stats env batch st)) = flushCount (stats st) + 1"
  "lastFlushAt (stats (doFlush_stats env batch st)) = Some (Date_now env)"
  "avgBatchSize (stats (doFlush_stats env batch st)) =
     Math_round ((of_int (avgBatchSize (stats st)) * of_nat (flushCount (stats st))
                  + of_nat (Map_size batch)) / of_nat (flushCount (stats st) + 1))"
  by (simp_all add: doFlush_stats_def Let_def emit_simps)

lemma drained_new: "(a::Aggregator)\<lparr>deltas := [], count := 0\<rparr> = Aggregator_new"
  by (simp add: Aggregator_new_def)

lemma acked_append: "acked (xs @ ys) = acked xs @ acked ys"
  by (induction xs rule: acked.induct) simp_all

lemma doFlush_resolved:
  assumes "provider_flush_outcome env = Resolved failed"
      and "pendingIds st \<noteq> [] \<longrightarrow> xack_outcome env = None"
  shows "doFlush env st =
     (let batch = deltas (aggregator st);
          st2 = meanwhile (during_flush env)
                  (perform (Provider_flush batch)
                     (st\<lparr>aggregator := Aggregator_new, pendingIds := []\<rparr>));
          st3 = (case failed of
                   None \<Rightarrow> st2
                 | Some f \<Rightarrow>
                     if Map_size f > 0
                     then emit (Warn ''Partial flush failure''
                                  (Failed_of (Map_size f) (Map_size batch)))
                            (readd (Date_now env) f st2)
                     else st2)
      in doFlush_stats env batch
           (if pendingIds st \<noteq> []
            then meanwhile (during_xack env) (perform (Xack (pendingIds st)) st3)
            else st3))"
  using assms by (simp add: doFlush_def Aggregator_drain_def Let_def drained_new)

lemma doFlush_with_failures:
  assumes "provider_flush_outcome env = Resolved (Some failed)"
      and "0 < Map_size failed"
      and "pendingIds st \<noteq> [] \<longrightarrow> xack_outcome env = None"
  shows "trace (doFlush env st) =
           trace st
           @ [Provider_flush (deltas (aggregator st)),
              Emit (Warn ''Partial flush failure''
                      (Failed_of (Map_size failed) (Map_size (deltas (aggregator st)))))]
           @ (if pendingIds st = [] then [] else [Xack (pendingIds st)])
           @ [Emit (Flush_event (Map_size (deltas (aggregator st))) (flushCount (stats st) + 1))]"
    and "aggregator (doFlush env st) =
           add_all (map snd (during_flush env) @ map (synthetic (Date_now env)) failed
                    @ map snd (arrived_during_xack env st)) Aggregator_new"
    and "pendingIds (doFlush env st) =
           map fst (during_flush env) @ map fst (arrived_during_xack env st)"
    and "flushCount (stats (doFlush env st)) = flushCount (stats st) + 1"
    and "lastFlushAt (stats (doFlush env st)) = Some (Date_now env)"
    and "errorCount (stats (doFlush env st)) = errorCount (stats st)"
  using assms
  by (simp_all add: doFlush_resolved Let_def doFlush_stats_simps meanwhile_unchanged
        meanwhile_aggregator meanwhile_pendingIds perform_simps emit_simps readd_simps
        add_all_append arrived_during_xack_def add_all_Nil)

lemma readded_value:
  assumes "distinct (map fst failed)" and "(s, d) \<in> set failed"
  shows "Map_get (deltas (add_all (xs @ map (synthetic now) failed @ ys) Aggregator_new)) s =
           Some (sum_list (deltas_of s xs) + d + sum_list (deltas_of s ys))"
proof -
  from assms have "deltas_of s (map (synthetic now) failed) = [d]"
    by (rule deltas_of_synthetic)
  moreover from assms(2) have "s \<in> scope ` set (xs @ map (synthetic now) failed @ ys)"
    by (force simp: synthetic_simps)
  ultimately show ?thesis
    by (simp add: get_add_all_new deltas_of_append add.assoc)
qed

lemma scan_fields_untouched:
  "k \<notin> set (field_keys fs) \<Longrightarrow>
     (k = ''scope'' \<longrightarrow> scope_slot (scan_fields fs r) = scope_slot r)
   \<and> (k = ''delta'' \<longrightarrow> delta_slot (scan_fields fs r) = delta_slot r)
   \<and> (k = ''timestamp'' \<longrightarrow> timestamp_slot (scan_fields fs r) = timestamp_slot r)
   \<and> (k = ''metadata'' \<longrightarrow> metadata_slot (scan_fields fs r) = metadata_slot r)"
  by (induction fs r rule: scan_fields.induct) (auto simp: assign_slot_def)

























section \<open>The repository's tests, replayed on the model\<close>

text \<open>aggregator.test.ts: three events of one scope fold to their net delta.\<close>

lemma test_fold_increments_and_decrements:
  "Aggregator_size (add_all [ev ''likes'' 1, ev ''likes'' 1, ev ''likes'' (- 1)] Aggregator_new) = 3"
  "Aggregator_scopeCount (add_all [ev ''likes'' 1, ev ''likes'' 1, ev ''likes'' (- 1)] Aggregator_new) = 1"
  "fst (Aggregator_drain (add_all [ev ''likes'' 1, ev ''likes'' 1, ev ''likes'' (- 1)] Aggregator_new))
     = [(''likes'', Num 1)]"
  by (simp_all add: Aggregator_size_def Aggregator_scopeCount_def Aggregator_drain_def
        add_all_def Aggregator_add_def Aggregator_new_def ev_def Map_get_def Map_size_def
        zero_jsnum_def Let_def)

text \<open>provider.test.ts: a BulkWriteError for one of three operations yields the failed
  scope; one for every operation is rethrown.\<close>

lemma test_partial_BulkWriteError:
  "MongoProvider_flush
     (BulkWrite_rejected \<lparr>err_name = ''MongoBulkWriteError'', err_result = Some (Some [1]),
                         err_writeErrors = None\<rparr>)
     [(''a'', Num 1), (''b'', Num 2), (''c'', Num 3)]
   = (Inr (FlushResult [(Some ''b'', Some (Num 2))]),
      [BulkWrite [(''a'', Num 1), (''b'', Num 2), (''c'', Num 3)]])"
  by (simp add: MongoProvider_flush_def Map_size_def Set_of_def failed_entry_def nth_opt_def
        Map_get_def Let_def)

lemma test_total_BulkWriteError:
  "fst (MongoProvider_flush
          (BulkWrite_rejected \<lparr>err_name = ''MongoBulkWriteError'',
                              err_result = Some (Some [0, 1]), err_writeErrors = None\<rparr>)
          [(''a'', Num 1), (''b'', Num 2)])
   = Inl \<lparr>err_name = ''MongoBulkWriteError'', err_result = Some (Some [0, 1]),
          err_writeErrors = None\<rparr>"
  by (simp add: MongoProvider_flush_def Map_size_def Let_def)

text \<open>The reading of the wire format by \<open>Number_decimal\<close>.\<close>

lemma Number_decimal_examples:
  "Number_decimal ''3'' = Num 3"
  "Number_decimal ''-1'' = Num (- 1)"
  "Number_decimal '' 42 '' = Num 42"
  "Number_decimal '''' = Num 0"
  "Number_decimal ''abc'' = NaN"
  "Number_decimal ''-'' = NaN"
  by (simp_all add: Number_decimal_def trim_blanks_def is_blank_def unsigned_decimal_def
        digit_value_def Let_def)

section \<open>Folding correctness\<close>



section \<open>Total flush failure\<close>



section \<open>Partial flush failure\<close>



section \<open>A FlushResult that reports every scope as failed\<close>

text \<open>
  Claim C4, as the specification states it, asks that a FlushResult naming the whole batch
  as failed be treated as a total failure: nothing acknowledged, no warning. The engine
  does not compare the size of \<open>failed\<close> with the batch: with \<open>a\<close> and \<open>b\<close> both reported as
  failed it warns \<open>Partial flush failure\<close>, acknowledges both ids and counts a flush.
\<close>

theorem all_failed_counterexample:
  "provider_flush_outcome all_failed = Resolved (Some (deltas (aggregator holding_ab)))
   \<and> pendingIds holding_ab = [''4-0'', ''5-0'']
   \<and> trace (doFlush all_failed holding_ab) =
       [Provider_flush [(''a'', Num 1), (''b'', Num 2)],
        Emit (Warn ''Partial flush failure'' (Failed_of 2 2)),
        Xack [''4-0'', ''5-0''],
        Emit (Flush_event 2 1)]
   \<and> acked (trace (doFlush all_failed holding_ab)) = [''4-0'', ''5-0'']
   \<and> pendingIds (doFlush all_failed holding_ab) = []
   \<and> errorCount (stats (doFlush all_failed holding_ab)) = 0"
  by (simp add: all_failed_def calm_def holding_ab_def bridge0_def CounterBridge_new_def
        meanwhile_def ingest_def ev_def Aggregator_new_def Aggregator_add_def Let_def
        Map_get_def Map_size_def add_all_def synthetic_def zero_jsnum_def
        doFlush_def Aggregator_drain_def perform_def emit_def readd_def doFlush_stats_def)

text \<open>
  Claim C4, amended. When \<open>provider.flush\<close> resolves with a \<open>failed\<close> map that names every
  entry of the batch and the acknowledgement succeeds, the engine handles it as a partial
  failure: the whole batch is added back, so that each scope holds its delta again; the
  warning \<open>Partial flush failure\<close> is emitted with as many failed scopes as the batch has;
  the snapshotted ids are acknowledged and none stays pending; a flush is counted and no
  error is.
\<close>

theorem all_failed_is_handled_as_partial:
  assumes "provider_flush_outcome env = Resolved (Some failed)"
      and "set failed = set (deltas (aggregator st))"
      and "distinct (map fst failed)"
      and "deltas (aggregator st) \<noteq> []"
      and "xack_outcome env = None"
  shows "(\<forall>(s, d) \<in> set (deltas (aggregator st)).
            Map_get (deltas (aggregator (doFlush env st))) s =
            Some (sum_list (deltas_of s (map snd (during_flush env))) + d
                  + sum_list (deltas_of s (map snd (arrived_during_xack env st)))))
       \<and> aggregator (doFlush env st) =
           add_all (map snd (during_flush env) @ map (synthetic (Date_now env)) failed
                    @ map snd (arrived_during_xack env st)) Aggregator_new
       \<and> trace (doFlush env st) =
           trace st
           @ [Provider_flush (deltas (aggregator st)),
              Emit (Warn ''Partial flush failure''
                      (Failed_of (Map_size failed) (Map_size (deltas (aggregator st)))))]
           @ (if pendingIds st = [] then [] else [Xack (pendingIds st)])
           @ [Emit (Flush_event (Map_size (deltas (aggregator st))) (flushCount (stats st) + 1))]
       \<and> acked (trace (doFlush env st)) = acked (trace st) @ pendingIds st
       \<and> pendingIds (doFlush env st) =
           map fst (during_flush env) @ map fst (arrived_during_xack env st)
       \<and> flushCount (stats (doFlush env st)) = flushCount (stats st) + 1
       \<and> errorCount (stats (doFlush env st)) = errorCount (stats st)"
proof -
  from assms(2) assms(4) have "failed \<noteq> []" by auto
  then have size: "0 < Map_size failed" by (simp add: Map_size_def)
  from assms(5) have ack: "pendingIds st \<noteq> [] \<longrightarrow> xack_outcome env = None" by simp
  note facts = doFlush_with_failures [OF assms(1) size ack]
  have "acked (trace (doFlush env st)) = acked (trace st) @ pendingIds st"
    by (simp add: facts(1) acked_append)
  moreover have "Map_get (deltas (aggregator (doFlush env st))) s =
               Some (sum_list (deltas_of s (map snd (during_flush env))) + d
                     + sum_list (deltas_of s (map snd (arrived_during_xack env st))))"
    if "(s, d) \<in> set (deltas (aggregator st))" for s d
  proof -
    from that assms(2) have "(s, d) \<in> set failed" by simp
    with assms(3) show ?thesis unfolding facts(2) by (rule readded_value)
  qed
  ultimately show ?thesis
    using facts by blast
qed

theorem all_failed_is_handled_as_partial_witness:
  "provider_flush_outcome all_failed = Resolved (Some [(''a'', Num 1), (''b'', Num 2)])
   \<and> set [(''a'', Num 1), (''b'', Num 2)] = set (deltas (aggregator holding_ab))
   \<and> xack_outcome all_failed = None
   \<and> Map_get (deltas (aggregator (doFlush all_failed holding_ab))) ''a'' = Some (Num 1)
   \<and> Map_get (deltas (aggregator (doFlush all_failed holding_ab))) ''b'' = Some (Num 2)
   \<and> aggregator (doFlush all_failed holding_ab) =
       \<lparr>deltas = [(''a'', Num 1), (''b'', Num 2)], count = 2\<rparr>
   \<and> trace (doFlush all_failed holding_ab) =
       [Provider_flush [(''a'', Num 1), (''b'', Num 2)],
        Emit (Warn ''Partial flush failure'' (Failed_of 2 2)),
        Xack [''4-0'', ''5-0''],
        Emit (Flush_event 2 1)]
   \<and> pendingIds (doFlush all_failed holding_ab) = []
   \<and> flushCount (stats (doFlush all_failed holding_ab)) = 1
   \<and> errorCount (stats (doFlush all_failed holding_ab)) = 0"
  using all_failed_is_handled_as_partial
          [of all_failed "[(''a'', Num 1), (''b'', Num 2)]" holding_ab]
  by (simp add: all_failed_def calm_def holding_ab_def bridge0_def CounterBridge_new_def
        meanwhile_def ingest_def ev_def Aggregator_new_def Aggregator_add_def Let_def
        Map_get_def Map_size_def add_all_def synthetic_def deltas_of_def zero_jsnum_def
        arrived_during_xack_def)

section \<open>The event parser\<close>




text \<open>
  Claim C6, as the specification states it, has the timestamp default to the clock also
  when the field is there and does not parse. The parser defaults only an absent field:
  with \<open>timestamp = abc\<close> the event carries \<open>NaN\<close>, not the clock's \<open>1000\<close>.
\<close>

theorem unparseable_timestamp_counterexample:
  "Date_now calm = 1000 \<and> Number calm ''abc'' = NaN
   \<and> fst (parseEvent calm [''scope'', ''x'', ''delta'', ''1'', ''timestamp'', ''abc'']) =
       Some \<lparr>scope = ''x'', delta = Num 1, metadata = None, timestamp = Some NaN\<rparr>"
  by (simp add: parseEvent_def calm_def no_slots_def assign_slot_def Let_def
        Number_decimal_def trim_blanks_def is_blank_def unsigned_decimal_def digit_value_def)

text \<open>
  Claim C6, amended. For every parsed event: when the fields have no key \<open>timestamp\<close> (or
  the key comes last, without a value) the event's timestamp is the current clock
  reading; when a value is there the timestamp is \<open>Number\<close> of that text, which is \<open>NaN\<close>
  for a text that is not numeric.
\<close>

theorem timestamp_defaults_when_absent:
  assumes "fst (parseEvent env fs) = Some e"
  shows "(''timestamp'' \<notin> set (field_keys fs) \<longrightarrow> timestamp e = Some (Num (Date_now env)))
       \<and> (timestamp_slot (scan_fields fs no_slots) = None \<longrightarrow>
            timestamp e = Some (Num (Date_now env)))
       \<and> (\<forall>t. timestamp_slot (scan_fields fs no_slots) = Some t \<longrightarrow>
            timestamp e = Some (Number env t))"
proof -
  have ts: "timestamp e = Some (case timestamp_slot (scan_fields fs no_slots) of
                                  None \<Rightarrow> Num (Date_now env)
                                | Some t \<Rightarrow> Number env t)"
    using assms
    by (auto simp: parseEvent_def Let_def split: option.splits if_splits prod.splits)
  have "timestamp_slot (scan_fields fs no_slots) = None"
    if "''timestamp'' \<notin> set (field_keys fs)"
    using scan_fields_untouched [OF that, of no_slots] by (simp add: no_slots_def)
  with ts show ?thesis by simp
qed

theorem timestamp_defaults_when_absent_witness:
  "fst (parseEvent calm [''scope'', ''x'', ''delta'', ''3'']) =
     Some \<lparr>scope = ''x'', delta = Num 3, metadata = None, timestamp = Some (Num 1000)\<rparr>
   \<and> ''timestamp'' \<notin> set (field_keys [''scope'', ''x'', ''delta'', ''3''])
   \<and> timestamp \<lparr>scope = ''x'', delta = Num 3, metadata = None, timestamp = Some (Num 1000)\<rparr>
       = Some (Num (Date_now calm))
   \<and> fst (parseEvent calm [''scope'', ''x'', ''delta'', ''3'', ''timestamp'', ''42'']) =
     Some \<lparr>scope = ''x'', delta = Num 3, metadata = None, timestamp = Some (Num 42)\<rparr>
   \<and> timestamp_slot (scan_fields [''scope'', ''x'', ''delta'', ''3'', ''timestamp'', ''42'']
        no_slots) = Some ''42''"
  using timestamp_defaults_when_absent
          [of calm "[''scope'', ''x'', ''delta'', ''3'']"
              "\<lparr>scope = ''x'', delta = Num 3, metadata = None, timestamp = Some (Num 1000)\<rparr>"]
        timestamp_defaults_when_absent
          [of calm "[''scope'', ''x'', ''delta'', ''3'', ''timestamp'', ''42'']"
              "\<lparr>scope = ''x'', delta = Num 3, metadata = None, timestamp = Some (Num 42)\<rparr>"]
  by (simp add: parseEvent_def calm_def no_slots_def assign_slot_def Let_def
        Number_decimal_def trim_blanks_def is_blank_def unsigned_decimal_def digit_value_def)

section \<open>Start-up and the propagation of errors\<close>







section \<open>The running average of the batch size\<close>

text \<open>
  Claim C9. A flush that completes (the provider resolves, with or without failed scopes,
  and the acknowledgement, if any, succeeds) counts one more flush and sets
  \<open>avgBatchSize\<close> to \<open>round((old * (flushCount - 1) + batch.size) / flushCount)\<close> with the
  new \<open>flushCount\<close>; a flush that fails, at the provider or at the acknowledgement, leaves
  both as they were.
\<close>

theorem avgBatchSize_after_flush:
  "(provider_flush_outcome env = Resolved failed \<longrightarrow>
      (pendingIds st \<noteq> [] \<longrightarrow> xack_outcome env = None) \<longrightarrow>
        flushCount (stats (doFlush env st)) = flushCount (stats st) + 1
      \<and> avgBatchSize (stats (doFlush env st)) =
          Math_round ((of_int (avgBatchSize (stats st))
                         * of_nat (flushCount (stats (doFlush env st)) - 1)
                       + of_nat (Map_size (deltas (aggregator st))))
                      / of_nat (flushCount (stats (doFlush env st)))))
   \<and> (provider_flush_outcome env = Rejected err
        \<or> (provider_flush_outcome env = Resolved failed \<and> pendingIds st \<noteq> []
            \<and> xack_outcome env = Some err) \<longrightarrow>
        flushCount (stats (doFlush env st)) = flushCount (stats st)
      \<and> avgBatchSize (stats (doFlush env st)) = avgBatchSize (stats st))"
proof (intro conjI impI)
  assume ok: "provider_flush_outcome env = Resolved failed"
     "pendingIds st \<noteq> [] \<longrightarrow> xack_outcome env = None"
  show count: "flushCount (stats (doFlush env st)) = flushCount (stats st) + 1"
    by (simp add: doFlush_resolved [OF ok] Let_def doFlush_stats_simps meanwhile_unchanged
          perform_simps emit_simps readd_simps split: option.split)
  show "avgBatchSize (stats (doFlush env st)) =
          Math_round ((of_int (avgBatchSize (stats st))
                         * of_nat (flushCount (stats (doFlush env st)) - 1)
                       + of_nat (Map_size (deltas (aggregator st))))
                      / of_nat (flushCount (stats (doFlush env st))))"
    unfolding count
    by (simp add: doFlush_resolved [OF ok] Let_def doFlush_stats_simps meanwhile_unchanged
          perform_simps emit_simps readd_simps split: option.split)
next
  assume bad: "provider_flush_outcome env = Rejected err
        \<or> (provider_flush_outcome env = Resolved failed \<and> pendingIds st \<noteq> []
            \<and> xack_outcome env = Some err)"
  then show "flushCount (stats (doFlush env st)) = flushCount (stats st)"
    by (auto simp: doFlush_def Aggregator_drain_def Let_def doFlush_catch_simps
          meanwhile_unchanged perform_simps emit_simps readd_simps split: option.split)
  from bad show "avgBatchSize (stats (doFlush env st)) = avgBatchSize (stats st)"
    by (auto simp: doFlush_def Aggregator_drain_def Let_def doFlush_catch_simps
          meanwhile_unchanged perform_simps emit_simps readd_simps split: option.split)
qed

theorem avgBatchSize_after_flush_witness:
  "provider_flush_outcome calm = Resolved None \<and> xack_outcome calm = None
   \<and> flushCount (stats flushed_once) = 1 \<and> avgBatchSize (stats flushed_once) = 1
   \<and> Map_size (deltas (aggregator flushed_once)) = 2
   \<and> flushCount (stats (doFlush calm flushed_once)) = 2
   \<and> avgBatchSize (stats (doFlush calm flushed_once)) = 2
   \<and> provider_flush_outcome db_down = Rejected (Thrown (Some ''DB down''))
   \<and> flushCount (stats (doFlush db_down flushed_once)) = 1
   \<and> avgBatchSize (stats (doFlush db_down flushed_once)) = 1"
  using avgBatchSize_after_flush [of calm None flushed_once "Thrown (Some ''DB down'')"]
        avgBatchSize_after_flush [of db_down None flushed_once "Thrown (Some ''DB down'')"]
  by (simp add: flushed_once_def db_down_def calm_def holding_ab_def bridge0_def
        CounterBridge_new_def meanwhile_def ingest_def ev_def Aggregator_new_def
        Aggregator_add_def Let_def Map_get_def Map_size_def zero_jsnum_def Math_round_def)

section \<open>The MongoDB provider on an empty batch\<close>

text \<open>
  Claim C10. \<open>MongoProvider.flush\<close> on an empty batch resolves to \<open>void\<close> at once and issues
  no database call, whatever \<open>bulkWrite\<close> would have answered; on a batch with entries it
  issues exactly one \<open>bulkWrite\<close>, of one operation per entry.
\<close>

theorem MongoProvider_flush_empty_batch:
  "(Map_size batch = 0 \<longrightarrow> MongoProvider_flush bulkWrite batch = (Inr Void, []))
   \<and> (Map_size batch \<noteq> 0 \<longrightarrow> snd (MongoProvider_flush bulkWrite batch) = [BulkWrite batch])"
  by (simp add: MongoProvider_flush_def Let_def
        split: bulkWrite_outcome.split option.split)

theorem MongoProvider_flush_empty_batch_witness:
  "Map_size ([] :: (string, jsnum) jsmap) = 0
   \<and> MongoProvider_flush
        (BulkWrite_rejected \<lparr>err_name = ''MongoBulkWriteError'', err_result = Some (Some [0]),
                            err_writeErrors = None\<rparr>) [] = (Inr Void, [])
   \<and> Map_size [(''x'', Num 1)] \<noteq> 0
   \<and> snd (MongoProvider_flush BulkWrite_ok [(''x'', Num 1)]) = [BulkWrite [(''x'', Num 1)]]"
  using MongoProvider_flush_empty_batch
          [of "[]" "BulkWrite_rejected \<lparr>err_name = ''MongoBulkWriteError'',
                 err_result = Some (Some [0]), err_writeErrors = None\<rparr>"]
        MongoProvider_flush_empty_batch [of "[(''x'', Num 1)]" BulkWrite_ok]
  by (simp add: Map_size_def)

end
